theory Spec2Isabelle
  imports Complex_Main "HOL-Library.AList"
begin

section \<open>Python values and exceptions\<close>

text \<open>
  The values that travel through \<open>plotlib.util\<close> and \<open>plotlib.root.tools\<close>: property values
  are scalars, tuples or lists, styles are dictionaries. A dictionary is an association list in
  insertion order (the order in which Python iterates it) tagged with its class, \<open>dict\<close> or
  the subclass \<open>DotDict\<close> of \<open>util.py\<close>. Keys are strings: property names, style names and
  attribute names are all strings in this library. Floats are idealised as reals.
\<close>

datatype dict_cls = Dict | DotDict

datatype pyval =
    VNone
  | VInt int
  | VFloat real
  | VStr string
  | VTuple "pyval list"
  | VList "pyval list"
  | VDict dict_cls "(string \<times> pyval) list"

datatype exn =
    TypeError string
  | ValueError string
  | KeyError string
  | AttributeError string
  | IndexError string
  | RuntimeError string

text \<open>\<open>isinstance(d, dict)\<close>: true of \<open>dict\<close> and of its subclass \<open>DotDict\<close>.\<close>

fun is_dict :: "pyval \<Rightarrow> bool" where
  "is_dict (VDict _ _) = True"
| "is_dict _ = False"

text \<open>\<open>type(v).__name__\<close>, as it appears in Python's messages.\<close>

fun type_name :: "pyval \<Rightarrow> string" where
  "type_name VNone = ''NoneType''"
| "type_name (VInt _) = ''int''"
| "type_name (VFloat _) = ''float''"
| "type_name (VStr _) = ''str''"
| "type_name (VTuple _) = ''tuple''"
| "type_name (VList _) = ''list''"
| "type_name (VDict Dict _) = ''dict''"
| "type_name (VDict DotDict _) = ''DotDict''"

definition quoted :: "string \<Rightarrow> string" where
  "quoted s = [CHR 0x27] @ s @ [CHR 0x27]"

section \<open>\<open>util.merge_dicts\<close>\<close>

text \<open>
  \<open>merged_dict.update(d)\<close> stores the items of \<open>d\<close> one by one: a key that is already
  present keeps its position and takes the new value, a new key is appended.
\<close>

definition dict_update :: "(string \<times> pyval) list \<Rightarrow> (string \<times> pyval) list \<Rightarrow> (string \<times> pyval) list" where
  "dict_update merged d = fold (\<lambda>(k, v). AList.update k v) d merged"

text \<open>The first loop of \<open>merge_dicts\<close>: the class of the first dict, or the \<open>TypeError\<close> of its \<open>else\<close>.\<close>

fun infer_cls :: "pyval list \<Rightarrow> exn + dict_cls" where
  "infer_cls [] = Inl (TypeError ''cannot infer cls as none of the passed objects is of type dict'')"
| "infer_cls (VDict c _ # ds) = Inr c"
| "infer_cls (_ # ds) = infer_cls ds"

text \<open>The second loop: every dict updates the result, everything else is passed over.\<close>

fun merge_loop :: "(string \<times> pyval) list \<Rightarrow> pyval list \<Rightarrow> (string \<times> pyval) list" where
  "merge_loop merged [] = merged"
| "merge_loop merged (VDict _ d # ds) = merge_loop (dict_update merged d) ds"
| "merge_loop merged (_ # ds) = merge_loop merged ds"

text \<open>\<open>merge_dicts(*dicts, cls=None)\<close>; the keyword is the first argument here.\<close>

definition merge_dicts :: "dict_cls option \<Rightarrow> pyval list \<Rightarrow> exn + pyval" where
  "merge_dicts cls dicts =
     (case (case cls of Some c \<Rightarrow> Inr c | None \<Rightarrow> infer_cls dicts) of
        Inl e \<Rightarrow> Inl e
      | Inr c \<Rightarrow> Inr (VDict c (merge_loop [] dicts)))"

section \<open>Target objects\<close>

text \<open>
  The objects handed to \<open>tools.py\<close> belong to the host plotting library. Such an object is
  a value of type \<open>'o\<close> together with its attribute lookup: \<open>ga obj name\<close> is the
  attribute \<open>name\<close> of \<open>obj\<close>, if it has one. A callable attribute takes the positional
  arguments and the object, and gives the exception it raised (\<open>None\<close> when it returned) and
  the object as the call left it. Every other attribute is plain data.
\<close>

datatype 'o attr =
    Callable "pyval list \<Rightarrow> 'o \<Rightarrow> exn option \<times> 'o"
  | Plain pyval

type_synonym 'o lookup = "'o \<Rightarrow> string \<Rightarrow> 'o attr option"

text \<open>\<open>getattr(obj, name, default)\<close> and \<open>callable\<close>.\<close>

definition getattr3 :: "'o lookup \<Rightarrow> 'o \<Rightarrow> string \<Rightarrow> 'o attr \<Rightarrow> 'o attr" where
  "getattr3 ga obj name dflt = (case ga obj name of Some a \<Rightarrow> a | None \<Rightarrow> dflt)"

fun callable :: "'o attr \<Rightarrow> bool" where
  "callable (Callable _) = True"
| "callable (Plain _) = False"

section \<open>\<open>tools.apply_properties\<close>\<close>

text \<open>Lines 30 to 36: \<open>setter(value)\<close> unless the value is a tuple, \<open>setter(*value)\<close> if it is.\<close>

fun setter_args :: "pyval \<Rightarrow> pyval list" where
  "setter_args (VTuple vs) = vs"
| "setter_args v = [v]"

text \<open>The body of the loop, for one item of the merged dictionary.\<close>

definition apply_property :: "'o lookup \<Rightarrow> 'o \<Rightarrow> string \<Rightarrow> pyval \<Rightarrow> exn option \<times> 'o" where
  "apply_property ga obj name v =
     (let setter = getattr3 ga obj (''Set'' @ name) (getattr3 ga obj name (Plain VNone)) in
      case setter of
        Plain _ \<Rightarrow> (None, obj)
      | Callable f \<Rightarrow> f (setter_args v) obj)"

text \<open>The loop over the items; an exception of a setter ends it.\<close>

fun apply_loop :: "'o lookup \<Rightarrow> 'o \<Rightarrow> (string \<times> pyval) list \<Rightarrow> exn option \<times> 'o" where
  "apply_loop ga obj [] = (None, obj)"
| "apply_loop ga obj ((name, v) # rest) =
     (case apply_property ga obj name v of
        (Some e, obj') \<Rightarrow> (Some e, obj')
      | (None, obj') \<Rightarrow> apply_loop ga obj' rest)"

text \<open>
  \<open>apply_properties(obj, props, *_props)\<close>. The last branch is \<open>six.iteritems\<close> on a value
  that is no dictionary; \<open>merge_dicts\<close> never returns one.
\<close>

definition apply_properties :: "'o lookup \<Rightarrow> 'o \<Rightarrow> pyval \<Rightarrow> pyval list \<Rightarrow> exn option \<times> 'o" where
  "apply_properties ga obj props more_props =
     (case merge_dicts None (props # more_props) of
        Inl e \<Rightarrow> (Some e, obj)
      | Inr (VDict _ items) \<Rightarrow> apply_loop ga obj items
      | Inr merged \<Rightarrow>
          (Some (AttributeError (quoted (type_name merged) @ '' object has no attribute '' @ quoted ''items'')), obj))"

section \<open>\<open>tools.set_color\<close>\<close>

definition funcs :: "(char \<times> string list) list" where
  "funcs =
     [(CHR ''l'', [''SetLineColor'']),
      (CHR ''m'', [''SetMarkerColor'']),
      (CHR ''f'', [''SetFillColor'']),
      (CHR ''t'', [''SetTextColor'', ''SetLabelColor''])]"

text \<open>Lines 207 to 210: \<open>func(*color)\<close> for a tuple or a list, \<open>func(color)\<close> otherwise.\<close>

fun color_args :: "pyval \<Rightarrow> pyval list" where
  "color_args (VTuple vs) = vs"
| "color_args (VList vs) = vs"
| "color_args v = [v]"

text \<open>The inner loop, over the setter names of one flag.\<close>

fun set_color_attrs :: "'o lookup \<Rightarrow> 'o \<Rightarrow> pyval \<Rightarrow> string list \<Rightarrow> exn option \<times> 'o" where
  "set_color_attrs ga obj color [] = (None, obj)"
| "set_color_attrs ga obj color (attr # attrs) =
     (case getattr3 ga obj attr (Plain VNone) of
        Plain _ \<Rightarrow> set_color_attrs ga obj color attrs
      | Callable func \<Rightarrow>
          (case func (color_args color) obj of
             (Some e, obj') \<Rightarrow> (Some e, obj')
           | (None, obj') \<Rightarrow> set_color_attrs ga obj' color attrs))"

text \<open>The outer loop, over the characters of \<open>flags\<close> (\<open>"lmft"\<close> when the caller gives none).\<close>

fun set_color :: "'o lookup \<Rightarrow> 'o \<Rightarrow> pyval \<Rightarrow> string \<Rightarrow> exn option \<times> 'o" where
  "set_color ga obj color [] = (None, obj)"
| "set_color ga obj color (flag # flags) =
     (case map_of funcs flag of
        None \<Rightarrow> (Some (ValueError (''flag '' @ quoted [flag] @ '' is unknown'')), obj)
      | Some attrs \<Rightarrow>
          (case set_color_attrs ga obj color attrs of
             (Some e, obj') \<Rightarrow> (Some e, obj')
           | (None, obj') \<Rightarrow> set_color ga obj' color flags))"

section \<open>\<open>util.DotDict\<close> and attribute lookup on values\<close>

text \<open>\<open>d[key]\<close>.\<close>

definition dict_getitem :: "(string \<times> pyval) list \<Rightarrow> string \<Rightarrow> exn + pyval" where
  "dict_getitem items key = (case map_of items key of None \<Rightarrow> Inl (KeyError key) | Some v \<Rightarrow> Inr v)"

text \<open>\<open>DotDict.__getattr__\<close>: the item, with the \<open>KeyError\<close> turned into an \<open>AttributeError\<close>.\<close>

definition DotDict_getattr :: "(string \<times> pyval) list \<Rightarrow> string \<Rightarrow> exn + pyval" where
  "DotDict_getattr items attr =
     (case dict_getitem items attr of
        Inr v \<Rightarrow> Inr v
      | Inl (KeyError k) \<Rightarrow> Inl (AttributeError k)
      | Inl e \<Rightarrow> Inl e)"

text \<open>
  \<open>getattr(v, attr)\<close> on a value. Python looks at the class first: \<open>class_attr v attr\<close>
  says that the type of \<open>v\<close> defines \<open>attr\<close> itself (for a dictionary, the methods of the
  built-in \<open>dict\<close>, which vary with the Python version), and then the result is that bound
  attribute. Only when the class has nothing of that name is \<open>__getattr__\<close> asked, which
  \<open>DotDict\<close> defines and no other type here does.
\<close>

datatype attr_val = Item pyval | Bound string

definition py_getattr :: "(pyval \<Rightarrow> string \<Rightarrow> bool) \<Rightarrow> pyval \<Rightarrow> string \<Rightarrow> exn + attr_val" where
  "py_getattr class_attr v attr =
     (if class_attr v attr then Inr (Bound attr)
      else case v of
        VDict DotDict items \<Rightarrow>
          (case DotDict_getattr items attr of Inl e \<Rightarrow> Inl e | Inr x \<Rightarrow> Inr (Item x))
      | _ \<Rightarrow> Inl (AttributeError (quoted (type_name v) @ '' object has no attribute '' @ quoted attr)))"

section \<open>\<open>util.Styles\<close>\<close>

record Styles =
  stack :: "string list"
  styles :: "(string \<times> pyval) list"

definition DEFAULT_STYLE_NAME :: string where
  "DEFAULT_STYLE_NAME = ''default''"

definition Styles_get :: "Styles \<Rightarrow> string \<Rightarrow> exn + pyval" where
  "Styles_get self style_name = dict_getitem (styles self) style_name"

text \<open>\<open>repr\<close> of a class, as \<open>format\<close> prints \<open>style.__class__\<close>.\<close>

definition class_repr :: "pyval \<Rightarrow> string" where
  "class_repr v = ''<class '' @ quoted (type_name v) @ ''>''"

definition Styles_set :: "Styles \<Rightarrow> string \<Rightarrow> pyval \<Rightarrow> (exn + pyval) \<times> Styles" where
  "Styles_set self style_name style =
     (if \<not> is_dict style
      then (Inl (TypeError (''wrong style type '' @ quoted (class_repr style) @ '', must be a dict'')), self)
      else (Inr style, self\<lparr>styles := AList.update style_name style (styles self)\<rparr>))"

text \<open>\<open>Styles.__init__\<close>.\<close>

definition Styles_init :: Styles where
  "Styles_init = snd (Styles_set \<lparr>stack = [], styles = []\<rparr> DEFAULT_STYLE_NAME (VDict DotDict []))"

definition current_style_name :: "Styles \<Rightarrow> string" where
  "current_style_name self = (if stack self \<noteq> [] then last (stack self) else DEFAULT_STYLE_NAME)"

definition current_style :: "Styles \<Rightarrow> exn + pyval" where
  "current_style self = Styles_get self (current_style_name self)"

text \<open>\<open>Styles.__getattr__\<close>, which Python calls for a name the registry does not define itself.\<close>

definition Styles_getattr :: "(pyval \<Rightarrow> string \<Rightarrow> bool) \<Rightarrow> Styles \<Rightarrow> string \<Rightarrow> exn + attr_val" where
  "Styles_getattr class_attr self attr =
     (case current_style self of
        Inl e \<Rightarrow> Inl e
      | Inr style \<Rightarrow> py_getattr class_attr style attr)"

text \<open>
  \<open>Styles.use\<close> is a generator wrapped by \<open>contextlib.contextmanager\<close>. Entering the
  \<open>with\<close> statement runs it up to the \<open>yield\<close>; leaving the statement, normally or with the
  exception \<open>pending\<close> from the body, runs the \<open>finally\<close> clause. \<open>list.pop\<close> raises on an
  empty list.
\<close>

definition stack_pop :: "Styles \<Rightarrow> exn option \<Rightarrow> exn option \<times> Styles" where
  "stack_pop self pending =
     (if stack self = [] then (Some (IndexError ''pop from empty list''), self)
      else (pending, self\<lparr>stack := butlast (stack self)\<rparr>))"

definition use_enter :: "Styles \<Rightarrow> string \<Rightarrow> (exn + pyval) \<times> Styles" where
  "use_enter self style_name =
     (if style_name \<notin> fst ` set (styles self)
      then (Inl (ValueError (''cannot use unknown style '' @ quoted style_name)), self)
      else
        (let pushed = self\<lparr>stack := stack self @ [style_name]\<rparr> in
         case Styles_get pushed style_name of
           Inr style \<Rightarrow> (Inr style, pushed)
         | Inl e \<Rightarrow>
             (case stack_pop pushed (Some e) of
                (Some e', self') \<Rightarrow> (Inl e', self')
              | (None, self') \<Rightarrow> (Inl e, self'))))"

definition use_exit :: "Styles \<Rightarrow> exn option \<Rightarrow> exn option \<times> Styles" where
  "use_exit self pending = stack_pop self pending"

text \<open>\<open>with self.use(style_name) as style: body\<close>, the body a function of the style and the registry.\<close>

definition use :: "Styles \<Rightarrow> string \<Rightarrow> (pyval \<Rightarrow> Styles \<Rightarrow> (exn + 'a) \<times> Styles) \<Rightarrow> (exn + 'a) \<times> Styles" where
  "use self style_name body =
     (case use_enter self style_name of
        (Inl e, self') \<Rightarrow> (Inl e, self')
      | (Inr style, entered) \<Rightarrow>
          (case body style entered of
             (r, after) \<Rightarrow>
               (case use_exit after (case r of Inl e \<Rightarrow> Some e | Inr _ \<Rightarrow> None) of
                  (Some e, left) \<Rightarrow> (Inl e, left)
                | (None, left) \<Rightarrow> (r, left))))"

section \<open>\<open>tools.get_pad_coordinates\<close>\<close>

text \<open>
  The registry \<open>styles\<close> of \<open>plotlib.root.styles\<close> is an argument here. \<open>styles.pad.X\<close> is
  two attribute lookups; the arithmetic then wants a number.
\<close>

definition attr_of :: "(pyval \<Rightarrow> string \<Rightarrow> bool) \<Rightarrow> attr_val \<Rightarrow> string \<Rightarrow> exn + attr_val" where
  "attr_of class_attr x attr =
     (case x of
        Item v \<Rightarrow> py_getattr class_attr v attr
      | Bound m \<Rightarrow>
          Inl (AttributeError (quoted ''builtin_function_or_method'' @ '' object has no attribute '' @ quoted attr)))"

fun number :: "attr_val \<Rightarrow> exn + real" where
  "number (Item (VInt i)) = Inr (of_int i)"
| "number (Item (VFloat r)) = Inr r"
| "number _ = Inl (TypeError ''unsupported operand type(s)'')"

definition pad_margin :: "(pyval \<Rightarrow> string \<Rightarrow> bool) \<Rightarrow> Styles \<Rightarrow> string \<Rightarrow> exn + real" where
  "pad_margin class_attr reg name =
     (case Styles_getattr class_attr reg ''pad'' of
        Inl e \<Rightarrow> Inl e
      | Inr pad \<Rightarrow>
          (case attr_of class_attr pad name of
             Inl e \<Rightarrow> Inl e
           | Inr m \<Rightarrow> number m))"

definition h_values :: "string list" where
  "h_values = [''l'', ''c'', ''r'']"

definition v_values :: "string list" where
  "v_values = [''t'', ''c'', ''b'']"

text \<open>\<open>repr\<close> of a tuple of strings, as \<open>format\<close> prints \<open>h_values\<close>.\<close>

fun join_repr :: "string list \<Rightarrow> string" where
  "join_repr [] = []"
| "join_repr [s] = quoted s"
| "join_repr (s # ss) = quoted s @ '', '' @ join_repr ss"

definition tuple_repr :: "string list \<Rightarrow> string" where
  "tuple_repr ss = ''('' @ join_repr ss @ (if length ss = 1 then '','' else []) @ '')''"

definition x_position :: "(pyval \<Rightarrow> string \<Rightarrow> bool) \<Rightarrow> Styles \<Rightarrow> string \<Rightarrow> real \<Rightarrow> exn + real" where
  "x_position class_attr reg h h_offset =
     (if h = ''l'' then
        (case pad_margin class_attr reg ''LeftMargin'' of Inl e \<Rightarrow> Inl e | Inr lm \<Rightarrow> Inr (lm + h_offset))
      else if h = ''c'' then
        (case pad_margin class_attr reg ''RightMargin'' of
           Inl e \<Rightarrow> Inl e
         | Inr rm \<Rightarrow>
             (case pad_margin class_attr reg ''LeftMargin'' of
                Inl e \<Rightarrow> Inl e
              | Inr lm \<Rightarrow> Inr ((1 - rm + lm) / 2)))
      else
        (case pad_margin class_attr reg ''RightMargin'' of Inl e \<Rightarrow> Inl e | Inr rm \<Rightarrow> Inr (1 - rm - h_offset)))"

definition y_position :: "(pyval \<Rightarrow> string \<Rightarrow> bool) \<Rightarrow> Styles \<Rightarrow> string \<Rightarrow> real \<Rightarrow> exn + real" where
  "y_position class_attr reg v v_offset =
     (if v = ''t'' then
        (case pad_margin class_attr reg ''TopMargin'' of Inl e \<Rightarrow> Inl e | Inr tm \<Rightarrow> Inr (1 - tm - v_offset))
      else if v = ''c'' then
        (case pad_margin class_attr reg ''TopMargin'' of
           Inl e \<Rightarrow> Inl e
         | Inr tm \<Rightarrow>
             (case pad_margin class_attr reg ''BottomMargin'' of
                Inl e \<Rightarrow> Inl e
              | Inr bm \<Rightarrow> Inr ((1 - tm + bm) / 2)))
      else
        (case pad_margin class_attr reg ''BottomMargin'' of Inl e \<Rightarrow> Inl e | Inr bm \<Rightarrow> Inr (bm + v_offset)))"

definition get_pad_coordinates ::
  "(pyval \<Rightarrow> string \<Rightarrow> bool) \<Rightarrow> Styles \<Rightarrow> string \<Rightarrow> string \<Rightarrow> real \<Rightarrow> real option \<Rightarrow> real option
     \<Rightarrow> exn + real \<times> real" where
  "get_pad_coordinates class_attr reg h v offset h_offset v_offset =
     (if h \<notin> set h_values then
        Inl (ValueError (''unknown horizontal position '' @ quoted h @ '', allowed values are '' @ tuple_repr h_values))
      else if v \<notin> set v_values then
        Inl (ValueError (''unknown vertical position '' @ quoted v @ '', allowed values are '' @ tuple_repr v_values))
      else
        (let h_off = (case h_offset of None \<Rightarrow> offset | Some d \<Rightarrow> d);
             v_off = (case v_offset of None \<Rightarrow> offset | Some d \<Rightarrow> d)
         in case x_position class_attr reg h h_off of
              Inl e \<Rightarrow> Inl e
            | Inr x \<Rightarrow>
                (case y_position class_attr reg v v_off of
                   Inl e \<Rightarrow> Inl e
                 | Inr y \<Rightarrow> Inr (x, y))))"

section \<open>Example registries\<close>

text \<open>
  The public methods that the built-in \<open>dict\<close> has in every Python version, as an
  instance of \<open>class_attr\<close>.
\<close>

definition dict_methods :: "pyval \<Rightarrow> string \<Rightarrow> bool" where
  "dict_methods v attr =
     (is_dict v \<and> attr \<in> set [''clear'', ''copy'', ''fromkeys'', ''get'', ''items'', ''keys'', ''pop'',
        ''popitem'', ''setdefault'', ''update'', ''values''])"

text \<open>A scope body that raises at once.\<close>

definition raising_body :: "pyval \<Rightarrow> Styles \<Rightarrow> (exn + unit) \<times> Styles" where
  "raising_body style self = (Inl (RuntimeError ''boom''), self)"

text \<open>A fresh registry with the styles \<open>"a"\<close> and \<open>"b"\<close> set.\<close>

definition two_styles :: Styles where
  "two_styles = snd (Styles_set (snd (Styles_set Styles_init ''a'' (VDict DotDict [(''canvas'', VInt 1)])))
                               ''b'' (VDict DotDict [(''canvas'', VInt 2)]))"

text \<open>A fresh registry whose default style was replaced by a plain \<open>dict\<close>.\<close>

definition plain_default :: Styles where
  "plain_default = snd (Styles_set Styles_init ''default'' (VDict Dict [(''canvas'', VInt 5)]))"

text \<open>A fresh registry whose default style has the key \<open>"keys"\<close>.\<close>

definition keys_default :: Styles where
  "keys_default = snd (Styles_set Styles_init ''default'' (VDict DotDict [(''keys'', VInt 5)]))"

text \<open>A fresh registry whose default style has the four margins of a pad.\<close>

definition pad_styles :: Styles where
  "pad_styles = snd (Styles_set Styles_init ''default''
     (VDict DotDict [(''pad'', VDict DotDict
        [(''TopMargin'', VFloat 0.05), (''RightMargin'', VFloat 0.03),
         (''BottomMargin'', VFloat 0.105), (''LeftMargin'', VFloat 0.13)])]))"

section \<open>Example target\<close>

text \<open>
  An object that is the log of the calls made on it. It has the methods \<open>SetFoo\<close>, \<open>Bar\<close>,
  \<open>SetLineColor\<close> and \<open>SetTextColor\<close>, which append their name and arguments to the log,
  the method \<open>SetRange\<close>, which rejects every argument, and the data attribute \<open>Title\<close>.
\<close>

definition record_call :: "string \<Rightarrow> pyval list \<Rightarrow> (string \<times> pyval list) list
    \<Rightarrow> exn option \<times> (string \<times> pyval list) list" where
  "record_call name args calls = (None, calls @ [(name, args)])"

definition reject_call :: "pyval list \<Rightarrow> (string \<times> pyval list) list
    \<Rightarrow> exn option \<times> (string \<times> pyval list) list" where
  "reject_call args calls = (Some (RuntimeError ''out of range''), calls)"

definition recorder :: "(string \<times> pyval list) list lookup" where
  "recorder calls name =
     (if name \<in> set [''SetFoo'', ''Bar'', ''SetLineColor'', ''SetTextColor''] then Some (Callable (record_call name))
      else if name = ''SetRange'' then Some (Callable reject_call)
      else if name = ''Title'' then Some (Plain (VStr ''plot''))
      else None)"

text \<open>
  An object with the method \<open>Grid\<close>, which appends to the log as above, and the data
  attribute \<open>SetGrid\<close>.
\<close>

definition shadowed :: "(string \<times> pyval list) list lookup" where
  "shadowed calls name =
     (if name = ''Grid'' then Some (Callable (record_call ''Grid''))
      else if name = ''SetGrid'' then Some (Plain (VInt 1))
      else None)"

section \<open>Properties of \<open>merge_dicts\<close>\<close>

lemma distinct_dict_update:
  "distinct (map fst merged) \<Longrightarrow> distinct (map fst (dict_update merged d))"
  unfolding dict_update_def
  by (induction d arbitrary: merged) (auto simp: distinct_update)

lemma map_of_dict_update:
  "distinct (map fst d) \<Longrightarrow> map_of (dict_update merged d) = map_of merged ++ map_of d"
  unfolding dict_update_def
proof (induction d arbitrary: merged)
  case Nil
  then show ?case by simp
next
  case (Cons p d)
  obtain k v where p: "p = (k, v)" by (cases p)
  from Cons.prems p have k: "k \<notin> fst ` set d" and d: "distinct (map fst d)" by auto
  from k have none: "map_of d k = None" by (simp add: map_of_eq_None_iff)
  have swap: "(map_of merged)(k \<mapsto> v) ++ map_of d = (map_of merged ++ map_of d)(k \<mapsto> v)"
    using none by (auto simp: map_add_def fun_eq_iff split: option.splits)
  have "map_of (fold (\<lambda>(k, v). AList.update k v) (p # d) merged)
      = map_of (AList.update k v merged) ++ map_of d"
    using Cons.IH [OF d, of "AList.update k v merged"] p by simp
  also have "\<dots> = (map_of merged ++ map_of d)(k \<mapsto> v)"
    using swap by (simp add: update_conv')
  also have "\<dots> = map_of merged ++ map_of (p # d)"
    using p by simp
  finally show ?case .
qed

lemma update_append_fresh:
  "k \<notin> fst ` set al \<Longrightarrow> AList.update k v al = al @ [(k, v)]"
  by (induction al) auto

lemma dict_update_append:
  "distinct (map fst (acc @ d)) \<Longrightarrow> dict_update acc d = acc @ d"
  unfolding dict_update_def
proof (induction d arbitrary: acc)
  case Nil
  then show ?case by simp
next
  case (Cons p d)
  obtain k v where p: "p = (k, v)" by (cases p)
  from Cons.prems p have fresh: "k \<notin> fst ` set acc" by auto
  from Cons.prems p have "distinct (map fst ((acc @ [(k, v)]) @ d))" by auto
  from Cons.IH [OF this] fresh p show ?case by (simp add: update_append_fresh)
qed

lemma dict_update_empty:
  "distinct (map fst d) \<Longrightarrow> dict_update [] d = d"
  using dict_update_append [of "[]" d] by simp

text \<open>
  C3. For all mappings \<open>A\<close>, \<open>B\<close>, \<open>C\<close>, whatever their classes and the \<open>cls\<close> keyword:
  merging \<open>[A, B, C]\<close> gives the same dictionary as merging \<open>[merge(A, B), C]\<close>, of the
  class \<open>cls\<close> or else of the class of \<open>A\<close>; when the keys of each mapping are distinct, a
  key is looked up in the result as in \<open>C\<close>, then \<open>B\<close>, then \<open>A\<close> (the later mapping wins);
  and \<open>merge({"a": 1, "b": 2}, {"b": 3})\<close> is \<open>{"a": 1, "b": 3}\<close>.
\<close>

theorem merge_dicts_last_wins_assoc:
  "\<exists>c ab abc.
      merge_dicts cls [VDict ca A, VDict cb B] = Inr (VDict c ab)
    \<and> merge_dicts cls [VDict ca A, VDict cb B, VDict cc C] = Inr (VDict c abc)
    \<and> merge_dicts cls [VDict c ab, VDict cc C] = Inr (VDict c abc)
    \<and> c = (case cls of Some k \<Rightarrow> k | None \<Rightarrow> ca)
    \<and> (distinct (map fst A) \<and> distinct (map fst B) \<and> distinct (map fst C) \<longrightarrow>
          map_of ab = map_of A ++ map_of B \<and> map_of abc = map_of A ++ map_of B ++ map_of C)
    \<and> merge_dicts None [VDict Dict [(''a'', VInt 1), (''b'', VInt 2)], VDict Dict [(''b'', VInt 3)]]
          = Inr (VDict Dict [(''a'', VInt 1), (''b'', VInt 3)])"
proof -
  define c where "c = (case cls of Some k \<Rightarrow> k | None \<Rightarrow> ca)"
  define ab where "ab = dict_update (dict_update [] A) B"
  define abc where "abc = dict_update ab C"
  have dab: "distinct (map fst ab)"
    unfolding ab_def by (intro distinct_dict_update) simp
  have two: "merge_dicts cls [VDict ca A, VDict cb B] = Inr (VDict c ab)"
    by (simp add: merge_dicts_def c_def ab_def split: option.splits)
  have three: "merge_dicts cls [VDict ca A, VDict cb B, VDict cc C] = Inr (VDict c abc)"
    by (simp add: merge_dicts_def c_def ab_def abc_def split: option.splits)
  have nested: "merge_dicts cls [VDict c ab, VDict cc C] = Inr (VDict c abc)"
    by (simp add: merge_dicts_def c_def abc_def dict_update_empty [OF dab] split: option.splits)
  have lookup: "map_of ab = map_of A ++ map_of B \<and> map_of abc = map_of A ++ map_of B ++ map_of C"
    if "distinct (map fst A)" "distinct (map fst B)" "distinct (map fst C)"
    using that by (simp add: ab_def abc_def map_of_dict_update)
  have example: "merge_dicts None [VDict Dict [(''a'', VInt 1), (''b'', VInt 2)], VDict Dict [(''b'', VInt 3)]]
          = Inr (VDict Dict [(''a'', VInt 1), (''b'', VInt 3)])"
    by (simp add: merge_dicts_def dict_update_def)
  from two three nested lookup example c_def show ?thesis by blast
qed

theorem merge_dicts_last_wins_assoc_witness:
  "\<exists>c ab abc.
      merge_dicts None [VDict DotDict [(''x'', VInt 1), (''y'', VInt 2)], VDict Dict [(''y'', VInt 3)]] = Inr (VDict c ab)
    \<and> merge_dicts None [VDict DotDict [(''x'', VInt 1), (''y'', VInt 2)], VDict Dict [(''y'', VInt 3)],
          VDict Dict [(''z'', VInt 4), (''x'', VInt 5)]] = Inr (VDict c abc)
    \<and> merge_dicts None [VDict c ab, VDict Dict [(''z'', VInt 4), (''x'', VInt 5)]] = Inr (VDict c abc)
    \<and> c = DotDict
    \<and> map_of abc = map_of [(''x'', VInt 1), (''y'', VInt 2)] ++ map_of [(''y'', VInt 3)]
          ++ map_of [(''z'', VInt 4), (''x'', VInt 5)]"
proof -
  have d: "distinct (map fst [(''x'', VInt 1), (''y'', VInt 2)])
      \<and> distinct (map fst [(''y'', VInt 3)])
      \<and> distinct (map fst [(''z'', VInt 4), (''x'', VInt 5)])"
    by simp
  have c: "(case None of Some k \<Rightarrow> k | None \<Rightarrow> DotDict) = DotDict"
    by simp
  show ?thesis
    using merge_dicts_last_wins_assoc [of None DotDict "[(''x'', VInt 1), (''y'', VInt 2)]"
      Dict "[(''y'', VInt 3)]" Dict "[(''z'', VInt 4), (''x'', VInt 5)]"] d
    unfolding c by blast
qed

section \<open>Properties of the style registry\<close>

text \<open>
  C6. For every name and every value that is no dictionary, \<open>set\<close> raises the \<open>TypeError\<close>
  and leaves the registry as it was, so that \<open>get\<close> of a name that was not registered still
  raises \<open>KeyError\<close>. For every dictionary, of class \<open>dict\<close> or \<open>DotDict\<close>, \<open>set\<close> returns
  the style, \<open>get\<close> of the name then gives that style whether or not the name was registered
  before, and every other name and the stack are untouched.
\<close>

theorem Styles_set_checks_mapping:
  "(\<not> is_dict v \<longrightarrow>
       Styles_set self name v
         = (Inl (TypeError (''wrong style type '' @ quoted (class_repr v) @ '', must be a dict'')), self)
     \<and> (name \<notin> fst ` set (styles self) \<longrightarrow>
          Styles_get (snd (Styles_set self name v)) name = Inl (KeyError name)))
 \<and> (is_dict v \<longrightarrow>
       fst (Styles_set self name v) = Inr v
     \<and> Styles_get (snd (Styles_set self name v)) name = Inr v
     \<and> (\<forall>other. other \<noteq> name \<longrightarrow>
          Styles_get (snd (Styles_set self name v)) other = Styles_get self other)
     \<and> stack (snd (Styles_set self name v)) = stack self)"
proof (cases "is_dict v")
  case False
  have "Styles_get self name = Inl (KeyError name)" if "name \<notin> fst ` set (styles self)"
    using that by (simp add: Styles_get_def dict_getitem_def map_of_eq_None_iff [THEN iffD2])
  with False show ?thesis by (simp add: Styles_set_def)
next
  case True
  then show ?thesis
    by (simp add: Styles_set_def Styles_get_def dict_getitem_def update_conv')
qed

theorem Styles_set_checks_mapping_witness:
  "Styles_set Styles_init ''x'' (VInt 5)
      = (Inl (TypeError (''wrong style type '' @ quoted (class_repr (VInt 5)) @ '', must be a dict'')), Styles_init)
   \<and> Styles_get (snd (Styles_set Styles_init ''x'' (VInt 5))) ''x'' = Inl (KeyError ''x'')
   \<and> fst (Styles_set Styles_init ''x'' (VDict Dict [(''canvas'', VInt 5)])) = Inr (VDict Dict [(''canvas'', VInt 5)])
   \<and> Styles_get (snd (Styles_set Styles_init ''x'' (VDict Dict [(''canvas'', VInt 5)]))) ''x''
        = Inr (VDict Dict [(''canvas'', VInt 5)])"
proof -
  have fresh: "''x'' \<notin> fst ` set (styles Styles_init)"
    by (simp add: Styles_init_def Styles_set_def DEFAULT_STYLE_NAME_def)
  have n: "\<not> is_dict (VInt 5)" and d: "is_dict (VDict Dict [(''canvas'', VInt 5)])"
    by simp_all
  show ?thesis
    using Styles_set_checks_mapping [of "VInt 5" Styles_init "''x''"]
      Styles_set_checks_mapping [of "VDict Dict [(''canvas'', VInt 5)]" Styles_init "''x''"]
      fresh n d
    by blast
qed

text \<open>
  C5. For every name that is not a key of the style mapping when the scope is entered,
  \<open>use\<close> raises the \<open>ValueError\<close> for an unknown style, the body does not run, and the
  registry, its stack included, is as before.
\<close>

theorem use_unknown_style:
  assumes "name \<notin> fst ` set (styles self)"
  shows "use_enter self name = (Inl (ValueError (''cannot use unknown style '' @ quoted name)), self)
       \<and> use self name body = (Inl (ValueError (''cannot use unknown style '' @ quoted name)), self)
       \<and> length (stack (snd (use self name body))) = length (stack self)"
  using assms by (simp add: use_enter_def use_def)

theorem use_unknown_style_witness:
  "use_enter two_styles ''x'' = (Inl (ValueError (''cannot use unknown style '' @ quoted ''x'')), two_styles)
       \<and> use two_styles ''x'' raising_body = (Inl (ValueError (''cannot use unknown style '' @ quoted ''x'')), two_styles)
       \<and> length (stack (snd (use two_styles ''x'' raising_body))) = length (stack two_styles)"
proof -
  have "''x'' \<notin> fst ` set (styles two_styles)"
    by (simp add: two_styles_def Styles_init_def Styles_set_def DEFAULT_STYLE_NAME_def)
  from use_unknown_style [OF this] show ?thesis .
qed

lemma use_enter_registered:
  assumes "name \<in> fst ` set (styles self)"
  shows "\<exists>style. use_enter self name = (Inr style, self\<lparr>stack := stack self @ [name]\<rparr>)"
proof -
  from assms obtain style where "map_of (styles self) name = Some style"
    by (metis map_of_eq_None_iff not_Some_eq)
  then show ?thesis
    using assms by (simp add: use_enter_def Styles_get_def dict_getitem_def Let_def)
qed

lemma use_stack_neutral:
  assumes "\<And>st s. stack (snd (body st s)) = stack s"
  shows "stack (snd (use self name body)) = stack self"
proof (cases "name \<in> fst ` set (styles self)")
  case False
  then show ?thesis by (simp add: use_enter_def use_def)
next
  case True
  from use_enter_registered [OF True] obtain style
    where enter: "use_enter self name = (Inr style, self\<lparr>stack := stack self @ [name]\<rparr>)" ..
  obtain r after where body: "body style (self\<lparr>stack := stack self @ [name]\<rparr>) = (r, after)"
    by (cases "body style (self\<lparr>stack := stack self @ [name]\<rparr>)")
  from assms [of style "self\<lparr>stack := stack self @ [name]\<rparr>"] body
  have "stack after = stack self @ [name]" by simp
  then show ?thesis
    using enter body
    by (cases r) (simp_all add: use_def use_exit_def stack_pop_def)
qed

text \<open>
  C2. For registered styles \<open>a\<close> and \<open>b\<close> and every scope body that leaves the stack as it
  found it, whether it returns or raises: inside a \<open>use(a)\<close> scope, once a nested \<open>use(b)\<close>
  scope around the body has been left, \<open>current_style_name\<close> is \<open>a\<close>; after the outer
  scope it is what it was before, which is \<open>"default"\<close> when the stack was empty; and a scope
  around the body, for any name, ends with the stack it started with.
\<close>

theorem use_scopes_restore:
  assumes reg_a: "a \<in> fst ` set (styles self)"
      and reg_b: "b \<in> fst ` set (styles self)"
      and neutral: "\<And>st s. stack (snd (body st s)) = stack s"
  shows "fst (use self a (\<lambda>_ s1. case use s1 b body of (r, s2) \<Rightarrow> (Inr (current_style_name s2), s2))) = Inr a
       \<and> current_style_name (snd (use self a (\<lambda>_ s1. case use s1 b body of (r, s2) \<Rightarrow> (Inr (current_style_name s2), s2))))
           = current_style_name self
       \<and> (stack self = [] \<longrightarrow>
            current_style_name (snd (use self a (\<lambda>_ s1. case use s1 b body of (r, s2) \<Rightarrow> (Inr (current_style_name s2), s2))))
              = ''default'')
       \<and> stack (snd (use self name body)) = stack self"
proof -
  let ?outer = "\<lambda>(_::pyval) s1. case use s1 b body of (r, s2) \<Rightarrow> (Inr (current_style_name s2) :: exn + string, s2)"
  let ?s1 = "self\<lparr>stack := stack self @ [a]\<rparr>"
  have outer_neutral: "stack (snd (?outer st s)) = stack s" for st s
    using use_stack_neutral [of body s b, OF neutral] by (simp add: split_beta)
  from use_enter_registered [OF reg_a] obtain style
    where enter: "use_enter self a = (Inr style, ?s1)" ..
  obtain r s2 where inner: "use ?s1 b body = (r, s2)"
    by (cases "use ?s1 b body")
  have s2: "stack s2 = stack self @ [a]"
    using use_stack_neutral [of body ?s1 b, OF neutral] inner by simp
  then have seen: "current_style_name s2 = a"
    by (simp add: current_style_name_def)
  have res: "fst (use self a ?outer) = Inr a"
    using enter inner s2 seen by (simp add: use_def use_exit_def stack_pop_def)
  have st: "stack (snd (use self a ?outer)) = stack self"
    by (rule use_stack_neutral) (rule outer_neutral)
  then have name: "current_style_name (snd (use self a ?outer)) = current_style_name self"
    by (simp add: current_style_name_def)
  have dflt: "current_style_name (snd (use self a ?outer)) = ''default''" if "stack self = []"
    using name that by (simp add: current_style_name_def DEFAULT_STYLE_NAME_def)
  from res name dflt use_stack_neutral [of body self name, OF neutral]
  show ?thesis by blast
qed

theorem use_scopes_restore_witness:
  "fst (use two_styles ''a'' (\<lambda>_ s1. case use s1 ''b'' raising_body of (r, s2) \<Rightarrow> (Inr (current_style_name s2), s2))) = Inr ''a''
   \<and> current_style_name (snd (use two_styles ''a'' (\<lambda>_ s1. case use s1 ''b'' raising_body of (r, s2) \<Rightarrow> (Inr (current_style_name s2), s2))))
           = ''default''
   \<and> stack (snd (use two_styles ''b'' raising_body)) = stack two_styles
   \<and> fst (use two_styles ''b'' raising_body) = Inl (RuntimeError ''boom'')"
proof -
  have a: "''a'' \<in> fst ` set (styles two_styles)" and b: "''b'' \<in> fst ` set (styles two_styles)"
    and e: "stack two_styles = []"
    by (simp_all add: two_styles_def Styles_init_def Styles_set_def DEFAULT_STYLE_NAME_def)
  have n: "\<And>st s. stack (snd (raising_body st s)) = stack s"
    by (simp add: raising_body_def)
  have r: "fst (use two_styles ''b'' raising_body) = Inl (RuntimeError ''boom'')"
    by (simp add: use_def use_enter_def use_exit_def stack_pop_def raising_body_def Styles_get_def
        dict_getitem_def two_styles_def Styles_init_def Styles_set_def DEFAULT_STYLE_NAME_def)
  from use_scopes_restore [of "''a''" two_styles "''b''" raising_body "''b''", OF a b n] e r
  show ?thesis by blast
qed

text \<open>
  C8. \<open>Styles.__getattr__\<close> forwards the name to \<open>getattr\<close> on the current style. When the
  current style is a \<open>DotDict\<close> and the name is not an attribute of the dictionary class
  itself, the result is the item of that key if the style has it and the \<open>AttributeError\<close>
  carrying the key if not. A plain \<open>dict\<close> as current style gives the
  \<open>AttributeError\<close> of an object without that attribute, and a name that the class
  defines gives that bound attribute.
\<close>

theorem Styles_getattr_passthrough:
  assumes "current_style self = Inr style"
  shows "Styles_getattr class_attr self attr = py_getattr class_attr style attr
       \<and> (\<not> class_attr style attr \<longrightarrow>
            (\<forall>items. style = VDict DotDict items \<longrightarrow>
               Styles_getattr class_attr self attr
                 = (case dict_getitem items attr of
                      Inr v \<Rightarrow> Inr (Item v)
                    | Inl _ \<Rightarrow> Inl (AttributeError attr)))
          \<and> (\<forall>items. style = VDict Dict items \<longrightarrow>
               Styles_getattr class_attr self attr
                 = Inl (AttributeError (quoted ''dict'' @ '' object has no attribute '' @ quoted attr))))
       \<and> (class_attr style attr \<longrightarrow> Styles_getattr class_attr self attr = Inr (Bound attr))"
  using assms
  by (auto simp: Styles_getattr_def py_getattr_def DotDict_getattr_def dict_getitem_def
      split: option.splits)

theorem Styles_getattr_passthrough_witness:
  "Styles_getattr dict_methods (snd (use_enter two_styles ''a'')) ''canvas'' = Inr (Item (VInt 1))
   \<and> Styles_getattr dict_methods (snd (use_enter two_styles ''a'')) ''legend'' = Inl (AttributeError ''legend'')"
proof -
  have c: "current_style (snd (use_enter two_styles ''a'')) = Inr (VDict DotDict [(''canvas'', VInt 1)])"
    by (simp add: current_style_def current_style_name_def use_enter_def Styles_get_def
        dict_getitem_def two_styles_def Styles_init_def Styles_set_def DEFAULT_STYLE_NAME_def)
  have n: "\<not> dict_methods (VDict DotDict [(''canvas'', VInt 1)]) ''canvas''"
    "\<not> dict_methods (VDict DotDict [(''canvas'', VInt 1)]) ''legend''"
    by (simp_all add: dict_methods_def)
  have g: "dict_getitem [(''canvas'', VInt 1)] ''canvas'' = Inr (VInt 1)"
    "dict_getitem [(''canvas'', VInt 1)] ''legend'' = Inl (KeyError ''legend'')"
    by (simp_all add: dict_getitem_def)
  from Styles_getattr_passthrough [OF c, of dict_methods "''canvas''"]
       Styles_getattr_passthrough [OF c, of dict_methods "''legend''"] n g
  show ?thesis by force
qed

text \<open>
  The restrictions of C8 are needed. With a plain \<open>dict\<close> registered as the default style
  the key \<open>"canvas"\<close> is present and \<open>registry.canvas\<close> raises; with a \<open>DotDict\<close> that has
  the key \<open>"keys"\<close>, \<open>registry.keys\<close> is the method of \<open>dict\<close>, not the item.
\<close>

theorem Styles_getattr_item_counterexample:
  "current_style plain_default = Inr (VDict Dict [(''canvas'', VInt 5)])
   \<and> dict_getitem [(''canvas'', VInt 5)] ''canvas'' = Inr (VInt 5)
   \<and> Styles_getattr dict_methods plain_default ''canvas''
        = Inl (AttributeError (quoted ''dict'' @ '' object has no attribute '' @ quoted ''canvas''))
   \<and> current_style keys_default = Inr (VDict DotDict [(''keys'', VInt 5)])
   \<and> dict_getitem [(''keys'', VInt 5)] ''keys'' = Inr (VInt 5)
   \<and> Styles_getattr dict_methods keys_default ''keys'' = Inr (Bound ''keys'')"
  by (simp add: current_style_def current_style_name_def Styles_get_def Styles_getattr_def
      py_getattr_def dict_methods_def dict_getitem_def plain_default_def keys_default_def
      Styles_init_def Styles_set_def DEFAULT_STYLE_NAME_def)

section \<open>Properties of \<open>apply_properties\<close> and \<open>set_color\<close>\<close>

lemma merge_dicts_single:
  "distinct (map fst items) \<Longrightarrow> merge_dicts None [VDict c items] = Inr (VDict c items)"
  by (simp add: merge_dicts_def dict_update_empty)

lemma apply_properties_single:
  "distinct (map fst items) \<Longrightarrow> apply_properties ga obj (VDict c items) [] = apply_loop ga obj items"
  by (simp add: apply_properties_def merge_dicts_single)

lemma apply_property_Set:
  "ga obj (''Set'' @ name) = Some (Callable f) \<Longrightarrow> apply_property ga obj name v = f (setter_args v) obj"
  by (simp add: apply_property_def getattr3_def)

lemma apply_property_bare:
  "ga obj (''Set'' @ name) = None \<Longrightarrow> ga obj name = Some (Callable f)
     \<Longrightarrow> apply_property ga obj name v = f (setter_args v) obj"
  by (simp add: apply_property_def getattr3_def)

lemma apply_property_plain:
  "ga obj (''Set'' @ name) = Some (Plain x) \<Longrightarrow> apply_property ga obj name v = (None, obj)"
  by (simp add: apply_property_def getattr3_def)

lemma apply_property_skip:
  assumes "\<forall>f. ga obj (''Set'' @ name) \<noteq> Some (Callable f)" and "\<forall>f. ga obj name \<noteq> Some (Callable f)"
  shows "apply_property ga obj name v = (None, obj)"
proof (cases "ga obj (''Set'' @ name)")
  case None
  with assms(2) show ?thesis
    by (cases "ga obj name") (auto simp: apply_property_def getattr3_def split: attr.splits)
next
  case (Some a)
  with assms(1) show ?thesis
    by (cases a) (auto simp: apply_property_def getattr3_def)
qed

text \<open>
  C1. For every target and every property mapping, taken item by item in the order of the
  mapping, the setter is \<open>getattr(obj, "Set" + name, getattr(obj, name, None))\<close>. If the
  target has a callable \<open>"Set" + name\<close>, that is called. If it has no attribute
  \<open>"Set" + name\<close> at all and a callable \<open>name\<close>, that is called. The call gets the value as
  its one argument unless the value is a tuple, whose elements are the arguments then; an
  exception of the call ends \<open>apply_properties\<close>, otherwise the rest of the mapping is
  applied to the target as the call left it. In every other case the property is passed over,
  the rest is applied to the unchanged target, and nothing is raised: when the target has an
  attribute \<open>"Set" + name\<close> that is not callable, whether or not \<open>name\<close> is callable, and
  when neither attribute is callable. The four cases cover every target.
\<close>

theorem apply_properties_dispatch:
  assumes wf: "distinct (map fst ((name, v) # rest))"
  shows "(\<forall>f. ga obj (''Set'' @ name) = Some (Callable f) \<longrightarrow>
            apply_properties ga obj (VDict c ((name, v) # rest)) []
              = (case f (setter_args v) obj of
                   (Some e, obj') \<Rightarrow> (Some e, obj')
                 | (None, obj') \<Rightarrow> apply_properties ga obj' (VDict c rest) []))
       \<and> (\<forall>f. ga obj (''Set'' @ name) = None \<and> ga obj name = Some (Callable f) \<longrightarrow>
            apply_properties ga obj (VDict c ((name, v) # rest)) []
              = (case f (setter_args v) obj of
                   (Some e, obj') \<Rightarrow> (Some e, obj')
                 | (None, obj') \<Rightarrow> apply_properties ga obj' (VDict c rest) []))
       \<and> (\<forall>x. ga obj (''Set'' @ name) = Some (Plain x) \<longrightarrow>
            apply_properties ga obj (VDict c ((name, v) # rest)) []
              = apply_properties ga obj (VDict c rest) [])
       \<and> ((\<forall>f. ga obj (''Set'' @ name) \<noteq> Some (Callable f)) \<and> (\<forall>f. ga obj name \<noteq> Some (Callable f)) \<longrightarrow>
            apply_properties ga obj (VDict c ((name, v) # rest)) []
              = apply_properties ga obj (VDict c rest) [])
       \<and> ((\<exists>f. ga obj (''Set'' @ name) = Some (Callable f))
          \<or> (\<exists>f. ga obj (''Set'' @ name) = None \<and> ga obj name = Some (Callable f))
          \<or> (\<exists>x. ga obj (''Set'' @ name) = Some (Plain x))
          \<or> ((\<forall>f. ga obj (''Set'' @ name) \<noteq> Some (Callable f)) \<and> (\<forall>f. ga obj name \<noteq> Some (Callable f))))
       \<and> apply_properties ga obj (VDict c []) [] = (None, obj)
       \<and> ((\<forall>vs. v \<noteq> VTuple vs) \<longrightarrow> setter_args v = [v])
       \<and> (\<forall>vs. v = VTuple vs \<longrightarrow> setter_args v = vs)"
proof -
  from wf have wr: "distinct (map fst rest)" by simp
  have step: "apply_properties ga obj (VDict c ((name, v) # rest)) []
      = (case apply_property ga obj name v of
           (Some e, obj') \<Rightarrow> (Some e, obj')
         | (None, obj') \<Rightarrow> apply_properties ga obj' (VDict c rest) [])"
    by (simp add: apply_properties_single [OF wf] apply_properties_single [OF wr]
        split: prod.splits option.splits)
  have a: "apply_properties ga obj (VDict c ((name, v) # rest)) []
              = (case f (setter_args v) obj of
                   (Some e, obj') \<Rightarrow> (Some e, obj')
                 | (None, obj') \<Rightarrow> apply_properties ga obj' (VDict c rest) [])"
    if "ga obj (''Set'' @ name) = Some (Callable f)" for f
    using that by (simp add: step apply_property_Set)
  have b: "apply_properties ga obj (VDict c ((name, v) # rest)) []
              = (case f (setter_args v) obj of
                   (Some e, obj') \<Rightarrow> (Some e, obj')
                 | (None, obj') \<Rightarrow> apply_properties ga obj' (VDict c rest) [])"
    if "ga obj (''Set'' @ name) = None" "ga obj name = Some (Callable f)" for f
    using that by (simp add: step apply_property_bare)
  have s: "apply_properties ga obj (VDict c ((name, v) # rest)) [] = apply_properties ga obj (VDict c rest) []"
    if "\<forall>f. ga obj (''Set'' @ name) \<noteq> Some (Callable f)" "\<forall>f. ga obj name \<noteq> Some (Callable f)"
    using that by (simp add: step apply_property_skip)
  have p: "apply_properties ga obj (VDict c ((name, v) # rest)) [] = apply_properties ga obj (VDict c rest) []"
    if "ga obj (''Set'' @ name) = Some (Plain x)" for x
    using that by (simp add: step apply_property_plain)
  have cover: "(\<exists>f. ga obj (''Set'' @ name) = Some (Callable f))
          \<or> (\<exists>f. ga obj (''Set'' @ name) = None \<and> ga obj name = Some (Callable f))
          \<or> (\<exists>x. ga obj (''Set'' @ name) = Some (Plain x))
          \<or> ((\<forall>f. ga obj (''Set'' @ name) \<noteq> Some (Callable f)) \<and> (\<forall>f. ga obj name \<noteq> Some (Callable f)))"
  proof (cases "ga obj (''Set'' @ name)")
    case None
    then show ?thesis by auto
  next
    case (Some a)
    then show ?thesis by (cases a) auto
  qed
  have e: "apply_properties ga obj (VDict c []) [] = (None, obj)"
    by (simp add: apply_properties_single)
  have t1: "setter_args v = [v]" if "\<forall>vs. v \<noteq> VTuple vs"
    using that by (cases v) simp_all
  have t2: "setter_args v = vs" if "v = VTuple vs" for vs
    using that by simp
  from a b p s cover e t1 t2 show ?thesis by blast
qed

theorem apply_properties_dispatch_witness:
  "apply_properties recorder []
      (VDict Dict [(''Foo'', VInt 5), (''Bar'', VTuple [VInt 1, VInt 2]), (''Qux'', VInt 1)]) []
     = (None, [(''SetFoo'', [VInt 5]), (''Bar'', [VInt 1, VInt 2])])
   \<and> apply_properties shadowed [] (VDict Dict [(''Grid'', VInt 3)]) [] = (None, [])"
proof -
  let ?after_foo = "[(''SetFoo'', [VInt 5])]"
  let ?after_bar = "[(''SetFoo'', [VInt 5]), (''Bar'', [VInt 1, VInt 2])]"
  have d3: "distinct (map fst [(''Foo'', VInt 5), (''Bar'', VTuple [VInt 1, VInt 2]), (''Qux'', VInt 1)])"
    and d2: "distinct (map fst [(''Bar'', VTuple [VInt 1, VInt 2]), (''Qux'', VInt 1)])"
    and d1: "distinct (map fst [(''Qux'', VInt 1)])"
    by simp_all
  have foo: "recorder [] (''Set'' @ ''Foo'') = Some (Callable (record_call ''SetFoo''))"
    by (simp add: recorder_def)
  have bar: "recorder ?after_foo (''Set'' @ ''Bar'') = None
      \<and> recorder ?after_foo ''Bar'' = Some (Callable (record_call ''Bar''))"
    by (simp add: recorder_def)
  have qux: "(\<forall>f. recorder ?after_bar (''Set'' @ ''Qux'') \<noteq> Some (Callable f))
      \<and> (\<forall>f. recorder ?after_bar ''Qux'' \<noteq> Some (Callable f))"
    by (simp add: recorder_def)
  have grid: "shadowed [] (''Set'' @ ''Grid'') = Some (Plain (VInt 1))"
    by (simp add: shadowed_def)
  have g1: "distinct (map fst [(''Grid'', VInt 3)])"
    by simp
  have "apply_properties shadowed [] (VDict Dict [(''Grid'', VInt 3)]) []
      = apply_properties shadowed [] (VDict Dict []) []"
    using apply_properties_dispatch [OF g1, of shadowed "[]" Dict] grid by blast
  also have "\<dots> = (None, [])"
    using apply_properties_dispatch [OF g1, of shadowed "[]" Dict] by blast
  finally have passed: "apply_properties shadowed [] (VDict Dict [(''Grid'', VInt 3)]) [] = (None, [])" .
  have "apply_properties recorder []
      (VDict Dict [(''Foo'', VInt 5), (''Bar'', VTuple [VInt 1, VInt 2]), (''Qux'', VInt 1)]) []
    = (case record_call ''SetFoo'' (setter_args (VInt 5)) [] of
         (Some e, obj') \<Rightarrow> (Some e, obj')
       | (None, obj') \<Rightarrow> apply_properties recorder obj'
           (VDict Dict [(''Bar'', VTuple [VInt 1, VInt 2]), (''Qux'', VInt 1)]) [])"
    using apply_properties_dispatch [OF d3, of recorder "[]" Dict] foo by blast
  also have "\<dots> = apply_properties recorder ?after_foo
      (VDict Dict [(''Bar'', VTuple [VInt 1, VInt 2]), (''Qux'', VInt 1)]) []"
    by (simp add: record_call_def)
  also have "\<dots> = (case record_call ''Bar'' (setter_args (VTuple [VInt 1, VInt 2])) ?after_foo of
         (Some e, obj') \<Rightarrow> (Some e, obj')
       | (None, obj') \<Rightarrow> apply_properties recorder obj' (VDict Dict [(''Qux'', VInt 1)]) [])"
    using apply_properties_dispatch [OF d2, of recorder ?after_foo Dict] bar by blast
  also have "\<dots> = apply_properties recorder ?after_bar (VDict Dict [(''Qux'', VInt 1)]) []"
    by (simp add: record_call_def)
  also have "\<dots> = apply_properties recorder ?after_bar (VDict Dict []) []"
    using apply_properties_dispatch [OF d1, of recorder ?after_bar Dict] qux by blast
  also have "\<dots> = (None, ?after_bar)"
    using apply_properties_dispatch [OF d1, of recorder ?after_bar Dict] by blast
  finally have applied: "apply_properties recorder []
      (VDict Dict [(''Foo'', VInt 5), (''Bar'', VTuple [VInt 1, VInt 2]), (''Qux'', VInt 1)]) []
    = (None, ?after_bar)" .
  from applied passed show ?thesis ..
qed

text \<open>
  C1 without the case of a data attribute \<open>"Set" + name\<close> would have the bare name called
  whenever it is callable. Here \<open>SetGrid\<close> is data and \<open>Grid\<close> is callable: calling
  \<open>Grid\<close> with the value would add to the log, and \<open>apply_properties\<close> leaves it empty.
\<close>

theorem apply_properties_shadowed_counterexample:
  "shadowed [] (''Set'' @ ''Grid'') = Some (Plain (VInt 1))
   \<and> shadowed [] ''Grid'' = Some (Callable (record_call ''Grid''))
   \<and> record_call ''Grid'' (setter_args (VInt 3)) [] = (None, [(''Grid'', [VInt 3])])
   \<and> apply_properties shadowed [] (VDict Dict [(''Grid'', VInt 3)]) [] = (None, [])"
  by (simp add: shadowed_def record_call_def apply_properties_def merge_dicts_def dict_update_def
      apply_property_def getattr3_def)

lemma list_not_own_element: "[VList vs] \<noteq> vs"
proof
  assume "[VList vs] = vs"
  then have "size_list size vs = size_list size [VList vs]" by simp
  then show False by simp
qed

text \<open>
  C9. For every property whose value is a list, \<open>apply_properties\<close> calls the setter with
  the list as its single argument, and unpacks a tuple only; \<open>set_color\<close> unpacks a list
  colour as it unpacks a tuple. The argument lists the two give a setter for the same list
  always differ.
\<close>

theorem list_values_disagree:
  assumes setter: "ga obj (''Set'' @ name) = Some (Callable f)"
      and line: "ga obj ''SetLineColor'' = Some (Callable g)"
  shows "apply_properties ga obj (VDict c [(name, VList vs)]) [] = f [VList vs] obj
       \<and> apply_properties ga obj (VDict c [(name, VTuple vs)]) [] = f vs obj
       \<and> set_color ga obj (VList vs) ''l'' = g vs obj
       \<and> set_color ga obj (VTuple vs) ''l'' = g vs obj
       \<and> [VList vs] \<noteq> vs"
proof -
  have a: "apply_properties ga obj (VDict c [(name, v)]) [] = f (setter_args v) obj" for v
    using setter
    by (simp add: apply_properties_single apply_property_Set split: prod.splits option.splits)
  have s: "set_color ga obj color ''l'' = g (color_args color) obj" for color
    using line
    by (simp add: funcs_def getattr3_def split: prod.splits option.splits)
  from a [of "VList vs"] a [of "VTuple vs"] s [of "VList vs"] s [of "VTuple vs"] list_not_own_element
  show ?thesis by simp
qed

theorem list_values_disagree_witness:
  "apply_properties recorder [] (VDict Dict [(''LineColor'', VList [VInt 1, VInt 2])]) []
      = (None, [(''SetLineColor'', [VList [VInt 1, VInt 2]])])
   \<and> set_color recorder [] (VList [VInt 1, VInt 2]) ''l'' = (None, [(''SetLineColor'', [VInt 1, VInt 2])])"
proof -
  have g: "recorder [] (''Set'' @ ''LineColor'') = Some (Callable (record_call ''SetLineColor''))"
    "recorder [] ''SetLineColor'' = Some (Callable (record_call ''SetLineColor''))"
    by (simp_all add: recorder_def)
  from list_values_disagree [of recorder "[]" "''LineColor''" "record_call ''SetLineColor''"
      "record_call ''SetLineColor''" Dict "[VInt 1, VInt 2]"] g
  show ?thesis by (simp add: record_call_def)
qed

lemma infer_cls_filter: "infer_cls (filter is_dict ds) = infer_cls ds"
  by (induction ds rule: infer_cls.induct) simp_all

lemma merge_loop_filter: "merge_loop acc (filter is_dict ds) = merge_loop acc ds"
  by (induction acc ds rule: merge_loop.induct) simp_all

lemma merge_dicts_filter: "merge_dicts cls (filter is_dict ds) = merge_dicts cls ds"
  by (simp add: merge_dicts_def infer_cls_filter merge_loop_filter split: option.splits sum.splits)

lemma infer_cls_no_dict: "filter is_dict ds = [] \<Longrightarrow>
    infer_cls ds = Inl (TypeError ''cannot infer cls as none of the passed objects is of type dict'')"
  using infer_cls_filter [of ds] by simp

lemma infer_cls_some_dict: "filter is_dict ds = d # rest \<Longrightarrow> \<exists>c. infer_cls ds = Inr c"
proof -
  assume a: "filter is_dict ds = d # rest"
  then have "is_dict d" by (metis filter_eq_ConsD)
  then obtain c items where "d = VDict c items" by (cases d) auto
  with a infer_cls_filter [of ds] have "infer_cls ds = Inr c" by simp
  then show ?thesis ..
qed

lemma apply_property_raises:
  assumes "apply_property ga obj name v = (Some e, obj')"
  shows "\<exists>attr f args. ga obj attr = Some (Callable f) \<and> f args obj = (Some e, obj')"
proof (cases "ga obj (''Set'' @ name)")
  case None
  with assms show ?thesis
    by (cases "ga obj name") (auto simp: apply_property_def getattr3_def split: attr.splits)
next
  case (Some a)
  with assms show ?thesis
    by (cases a) (auto simp: apply_property_def getattr3_def)
qed

lemma apply_loop_raises:
  "apply_loop ga obj items = (Some e, obj')
     \<Longrightarrow> \<exists>attr f args target. ga target attr = Some (Callable f) \<and> f args target = (Some e, obj')"
proof (induction items arbitrary: obj)
  case Nil
  then show ?case by simp
next
  case (Cons p items)
  obtain name v where p: "p = (name, v)" by (cases p)
  obtain r mid where step: "apply_property ga obj name v = (r, mid)"
    by (cases "apply_property ga obj name v")
  show ?case
  proof (cases r)
    case None
    with Cons.prems p step have "apply_loop ga mid items = (Some e, obj')" by simp
    from Cons.IH [OF this] show ?thesis .
  next
    case (Some e')
    with Cons.prems p step have "apply_property ga obj name v = (Some e, obj')" by simp
    from apply_property_raises [OF this] show ?thesis by blast
  qed
qed

text \<open>
  C7. \<open>apply_properties\<close> raises one error of its own: when none of the property sources
  is a dictionary, the \<open>TypeError\<close> of \<open>merge_dicts\<close>, with the target untouched. When at
  least one source is a dictionary, the sources that are not (\<open>None\<close> among them) are passed
  over, so that the call does what the call on the dictionaries alone does, and every
  exception that comes out of it was raised by a callable attribute of the target.
\<close>

theorem apply_properties_own_errors:
  "(filter is_dict (props # more_props) = [] \<longrightarrow>
      apply_properties ga obj props more_props
        = (Some (TypeError ''cannot infer cls as none of the passed objects is of type dict''), obj))
 \<and> (\<forall>d ds. filter is_dict (props # more_props) = d # ds \<longrightarrow>
        apply_properties ga obj props more_props = apply_properties ga obj d ds
      \<and> (\<forall>e obj'. apply_properties ga obj props more_props = (Some e, obj') \<longrightarrow>
            (\<exists>attr f args target. ga target attr = Some (Callable f) \<and> f args target = (Some e, obj'))))"
proof -
  have none: "apply_properties ga obj props more_props
        = (Some (TypeError ''cannot infer cls as none of the passed objects is of type dict''), obj)"
    if "filter is_dict (props # more_props) = []"
    using infer_cls_no_dict [OF that] by (simp add: apply_properties_def merge_dicts_def)
  have skip: "apply_properties ga obj props more_props = apply_properties ga obj d ds"
    if "filter is_dict (props # more_props) = d # ds" for d ds
    using merge_dicts_filter [of None "props # more_props"] that
    by (simp add: apply_properties_def)
  have prov: "\<exists>attr f args target. ga target attr = Some (Callable f) \<and> f args target = (Some e, obj')"
    if some: "filter is_dict (props # more_props) = d # ds"
      and raised: "apply_properties ga obj props more_props = (Some e, obj')" for d ds e obj'
  proof -
    from infer_cls_some_dict [OF some] obtain c where "infer_cls (props # more_props) = Inr c" ..
    then have "apply_properties ga obj props more_props
        = apply_loop ga obj (merge_loop [] (props # more_props))"
      by (simp add: apply_properties_def merge_dicts_def)
    with raised have "apply_loop ga obj (merge_loop [] (props # more_props)) = (Some e, obj')"
      by simp
    from apply_loop_raises [OF this] show ?thesis .
  qed
  from none skip prov show ?thesis by blast
qed

theorem apply_properties_own_errors_witness:
  "apply_properties recorder [] VNone [VDict Dict [(''Foo'', VInt 5)], VNone, VDict Dict [(''Range'', VInt 9)]]
      = apply_properties recorder [] (VDict Dict [(''Foo'', VInt 5)]) [VDict Dict [(''Range'', VInt 9)]]
   \<and> apply_properties recorder [] VNone [VDict Dict [(''Foo'', VInt 5)], VNone, VDict Dict [(''Range'', VInt 9)]]
      = (Some (RuntimeError ''out of range''), [(''SetFoo'', [VInt 5])])
   \<and> (\<exists>attr f args target. recorder target attr = Some (Callable f)
         \<and> f args target = (Some (RuntimeError ''out of range''), [(''SetFoo'', [VInt 5])]))"
proof -
  have f: "filter is_dict (VNone # [VDict Dict [(''Foo'', VInt 5)], VNone, VDict Dict [(''Range'', VInt 9)]])
      = VDict Dict [(''Foo'', VInt 5)] # [VDict Dict [(''Range'', VInt 9)]]"
    by simp
  have r: "apply_properties recorder [] VNone [VDict Dict [(''Foo'', VInt 5)], VNone, VDict Dict [(''Range'', VInt 9)]]
      = (Some (RuntimeError ''out of range''), [(''SetFoo'', [VInt 5])])"
    by (simp add: apply_properties_def merge_dicts_def dict_update_def apply_property_def getattr3_def
        recorder_def record_call_def reject_call_def)
  from apply_properties_own_errors [of VNone
      "[VDict Dict [(''Foo'', VInt 5)], VNone, VDict Dict [(''Range'', VInt 9)]]" recorder "[]"] f r
  show ?thesis by blast
qed

text \<open>
  As C7 is worded, no sequence of sources makes \<open>apply_properties\<close> itself raise; sources
  that are all \<open>None\<close> do.
\<close>

theorem apply_properties_no_mapping_counterexample:
  "apply_properties recorder [] VNone [VNone]
     = (Some (TypeError ''cannot infer cls as none of the passed objects is of type dict''), [])"
  by (simp add: apply_properties_def merge_dicts_def)







section \<open>Properties of \<open>get_pad_coordinates\<close>\<close>

text \<open>
  C10. For every horizontal position other than \<open>"l"\<close>, \<open>"c"\<close>, \<open>"r"\<close> the result is the
  \<open>ValueError\<close> that names the position and the allowed values, whatever the vertical
  position and the registry are; for an allowed horizontal position and a vertical position
  other than \<open>"t"\<close>, \<open>"c"\<close>, \<open>"b"\<close> it is the \<open>ValueError\<close> for the vertical position, again
  whatever the registry is, so that no style is read before the positions are checked. For
  allowed positions and a current style whose pad has the four margins as numbers, the result
  is the pair of coordinates, the offsets pointing inwards.
\<close>

theorem get_pad_coordinates_validates:
  "(h \<notin> {''l'', ''c'', ''r''} \<longrightarrow>
      get_pad_coordinates class_attr reg h v offset h_offset v_offset
        = Inl (ValueError (''unknown horizontal position '' @ quoted h
                 @ '', allowed values are ('l', 'c', 'r')'')))
 \<and> (h \<in> {''l'', ''c'', ''r''} \<and> v \<notin> {''t'', ''c'', ''b''} \<longrightarrow>
      get_pad_coordinates class_attr reg h v offset h_offset v_offset
        = Inl (ValueError (''unknown vertical position '' @ quoted v
                 @ '', allowed values are ('t', 'c', 'b')'')))
 \<and> (h \<in> {''l'', ''c'', ''r''} \<and> v \<in> {''t'', ''c'', ''b''}
      \<and> pad_margin class_attr reg ''LeftMargin'' = Inr lm
      \<and> pad_margin class_attr reg ''RightMargin'' = Inr rm
      \<and> pad_margin class_attr reg ''TopMargin'' = Inr tm
      \<and> pad_margin class_attr reg ''BottomMargin'' = Inr bm \<longrightarrow>
      get_pad_coordinates class_attr reg h v offset h_offset v_offset
        = Inr (if h = ''l'' then lm + (case h_offset of None \<Rightarrow> offset | Some d \<Rightarrow> d)
               else if h = ''c'' then (1 - rm + lm) / 2
               else 1 - rm - (case h_offset of None \<Rightarrow> offset | Some d \<Rightarrow> d),
               if v = ''t'' then 1 - tm - (case v_offset of None \<Rightarrow> offset | Some d \<Rightarrow> d)
               else if v = ''c'' then (1 - tm + bm) / 2
               else bm + (case v_offset of None \<Rightarrow> offset | Some d \<Rightarrow> d)))"
proof -
  have hv: "set h_values = {''l'', ''c'', ''r''}" "set v_values = {''t'', ''c'', ''b''}"
    by (simp_all add: h_values_def v_values_def)
  have hr: "tuple_repr h_values = ''('l', 'c', 'r')''" and vr: "tuple_repr v_values = ''('t', 'c', 'b')''"
    by (simp_all add: tuple_repr_def h_values_def v_values_def quoted_def)
  show ?thesis
    unfolding get_pad_coordinates_def hv hr vr x_position_def y_position_def Let_def
    by (simp split: option.splits)
qed

theorem get_pad_coordinates_validates_witness:
  "get_pad_coordinates dict_methods pad_styles ''x'' ''t'' 0.005 None None
      = Inl (ValueError (''unknown horizontal position '' @ quoted ''x''
                 @ '', allowed values are ('l', 'c', 'r')''))
   \<and> get_pad_coordinates dict_methods pad_styles ''l'' ''top'' 0.005 None None
      = Inl (ValueError (''unknown vertical position '' @ quoted ''top''
                 @ '', allowed values are ('t', 'c', 'b')''))
   \<and> get_pad_coordinates dict_methods pad_styles ''l'' ''t'' 0.005 None (Some 0.01)
      = Inr (0.135, 0.94)"
proof -
  have bad_h: "''x'' \<notin> {''l'', ''c'', ''r''}"
    and bad_v: "''l'' \<in> {''l'', ''c'', ''r''} \<and> ''top'' \<notin> {''t'', ''c'', ''b''}"
    and good: "''l'' \<in> {''l'', ''c'', ''r''} \<and> ''t'' \<in> {''t'', ''c'', ''b''}"
    by simp_all
  have margins: "pad_margin dict_methods pad_styles ''LeftMargin'' = Inr 0.13"
    "pad_margin dict_methods pad_styles ''RightMargin'' = Inr 0.03"
    "pad_margin dict_methods pad_styles ''TopMargin'' = Inr 0.05"
    "pad_margin dict_methods pad_styles ''BottomMargin'' = Inr 0.105"
    by (simp_all add: pad_margin_def Styles_getattr_def current_style_def current_style_name_def
        Styles_get_def dict_getitem_def py_getattr_def attr_of_def DotDict_getattr_def
        dict_methods_def pad_styles_def Styles_init_def Styles_set_def DEFAULT_STYLE_NAME_def)
  have one: "get_pad_coordinates dict_methods pad_styles ''x'' ''t'' 0.005 None None
      = Inl (ValueError (''unknown horizontal position '' @ quoted ''x''
                 @ '', allowed values are ('l', 'c', 'r')''))"
    using get_pad_coordinates_validates [where h = "''x''" and v = "''t''" and class_attr = dict_methods
        and reg = pad_styles and offset = "0.005" and h_offset = None and v_offset = None]
      bad_h by blast
  have two: "get_pad_coordinates dict_methods pad_styles ''l'' ''top'' 0.005 None None
      = Inl (ValueError (''unknown vertical position '' @ quoted ''top''
                 @ '', allowed values are ('t', 'c', 'b')''))"
    using get_pad_coordinates_validates [where h = "''l''" and v = "''top''" and class_attr = dict_methods
        and reg = pad_styles and offset = "0.005" and h_offset = None and v_offset = None]
      bad_v by blast
  have three: "get_pad_coordinates dict_methods pad_styles ''l'' ''t'' 0.005 None (Some 0.01)
      = Inr (0.135, 0.94)"
    using get_pad_coordinates_validates [where h = "''l''" and v = "''t''" and class_attr = dict_methods
        and reg = pad_styles and offset = "0.005" and h_offset = None and v_offset = "Some 0.01"
        and lm = "0.13" and rm = "0.03" and tm = "0.05" and bm = "0.105"] good margins
    by simp
  from one two three show ?thesis by blast
qed

end
